theory Spec2Isabelle
  imports Main "HOL-Library.Word" "HOL-Library.Char_ord" "HOL-Library.Sublist"
begin

unbundle bit_operations_syntax

section \<open>Go strings and the library functions the bridge calls\<close>

text \<open>
  A Go \<open>string\<close> and a Go \<open>[]byte\<close> are both byte sequences; both are modelled as
  \<open>string\<close>, a list of 8-bit characters. Library functions whose result depends on
  tables of the Go release (Unicode case mapping, JSON string escaping) are not
  re-implemented: they are fields of the record \<open>golib\<close> and every theorem holds for
  all of their values.
\<close>

subsection \<open>\<open>strings.ToLower\<close> and the regular expression \<open>[^a-z0-9]\<close>\<close>

definition ascii_lower :: "char \<Rightarrow> char" where
  "ascii_lower c =
     (if CHR ''A'' \<le> c \<and> c \<le> CHR ''Z'' then char_of (of_char c + (32::nat)) else c)"

definition isASCII :: "string \<Rightarrow> bool" where
  "isASCII s = list_all (\<lambda>c. c < CHR 0x80) s"

text \<open>
  \<open>strings.ToLower\<close>: a string of ASCII bytes only is lower-cased byte by byte; any
  other string goes through \<open>strings.Map(unicode.ToLower, s)\<close>, the parameter
  \<open>mapLower\<close>.
\<close>

definition strings_ToLower :: "(string \<Rightarrow> string) \<Rightarrow> string \<Rightarrow> string" where
  "strings_ToLower mapLower s = (if isASCII s then map ascii_lower s else mapLower s)"

definition alnum_lower :: "char \<Rightarrow> bool" where
  "alnum_lower c =
     ((CHR ''a'' \<le> c \<and> c \<le> CHR ''z'') \<or> (CHR ''0'' \<le> c \<and> c \<le> CHR ''9''))"

text \<open>
  \<open>reg.ReplaceAllString(s, "")\<close> for \<open>[^a-z0-9]\<close>: every rune outside the class is
  deleted. A byte from \<open>0x80\<close> up always belongs to a rune outside the class (a
  multi-byte rune, or an invalid byte read as U+FFFD), and an ASCII byte is always a
  rune of its own, so on bytes this is a filter.
\<close>

definition ReplaceAllString_empty :: "string \<Rightarrow> string" where
  "ReplaceAllString_empty s = filter alnum_lower s"

subsection \<open>Decimal formatting and scanning\<close>

fun decimal :: "nat \<Rightarrow> string" where
  "decimal n =
     (if n < 10 then [char_of (48 + n)] else decimal (n div 10) @ [char_of (48 + n mod 10)])"

declare decimal.simps [simp del]

text \<open>\<open>fmt.Sprintf("%d", i)\<close>.\<close>

definition Sprintf_d :: "int \<Rightarrow> string" where
  "Sprintf_d i = (if i < 0 then CHR ''-'' # decimal (nat (- i)) else decimal (nat i))"

definition is_digit :: "char \<Rightarrow> bool" where
  "is_digit c = (CHR ''0'' \<le> c \<and> c \<le> CHR ''9'')"

definition digits_value :: "string \<Rightarrow> int" where
  "digits_value tok = foldl (\<lambda>acc c. 10 * acc + (of_char c - 48)) 0 tok"

text \<open>
  \<open>var pid int; fmt.Sscanf(s, "%d", &pid)\<close> with the error dropped, for an input
  whose first byte is a digit (the only way the scanner calls it, so neither leading
  space nor a sign is ever consumed): the longest prefix of digits is the token;
  a token beyond the signed 64-bit range (from \<open>2 ^ 63\<close> up) is an error and leaves \<open>pid\<close> at zero.
\<close>

definition Sscanf_d :: "string \<Rightarrow> int" where
  "Sscanf_d s =
     (let tok = takeWhile is_digit s
      in if tok = [] then 0
         else if digits_value tok < 9223372036854775808 then digits_value tok else 0)"

subsection \<open>\<open>strings.Index\<close>, \<open>strings.TrimPrefix\<close>, \<open>strings.SplitN\<close>, \<open>bytes.Split\<close>\<close>

fun strings_Index :: "string \<Rightarrow> string \<Rightarrow> int" where
  "strings_Index [] substr = (if substr = [] then 0 else - 1)"
| "strings_Index (c # s) substr =
     (if prefix substr (c # s) then 0
      else (let i = strings_Index s substr in if i = - 1 then - 1 else i + 1))"

definition strings_TrimPrefix :: "string \<Rightarrow> string \<Rightarrow> string" where
  "strings_TrimPrefix s p = (if prefix p s then drop (length p) s else s)"

text \<open>\<open>strings.SplitN(s, sep, 2)\<close> for a non-empty separator.\<close>

definition strings_SplitN_2 :: "string \<Rightarrow> string \<Rightarrow> string list" where
  "strings_SplitN_2 s sep =
     (let i = strings_Index s sep
      in if i = - 1 then [s] else [take (nat i) s, drop (nat i + length sep) s])"

text \<open>\<open>bytes.Split(data, []byte{sep})\<close>: all the pieces, empty ones included.\<close>

fun bytes_Split :: "string \<Rightarrow> char \<Rightarrow> string list" where
  "bytes_Split [] sep = [[]]"
| "bytes_Split (c # cs) sep =
     (if c = sep then [] # bytes_Split cs sep
      else (case bytes_Split cs sep of
              [] \<Rightarrow> [[c]]
            | piece # pieces \<Rightarrow> (c # piece) # pieces))"

subsection \<open>\<open>encoding/binary\<close>, little endian\<close>

definition PutUint32 :: "32 word \<Rightarrow> string" where
  "PutUint32 v =
     [char_of (unat v), char_of (unat (drop_bit 8 v)),
      char_of (unat (drop_bit 16 v)), char_of (unat (drop_bit 24 v))]"

text \<open>\<open>binary.LittleEndian.Uint32(b)\<close>, for \<open>b\<close> of at least four bytes.\<close>

definition Uint32 :: "string \<Rightarrow> 32 word" where
  "Uint32 b =
     of_char (b ! 0) OR push_bit 8 (of_char (b ! 1)) OR
     push_bit 16 (of_char (b ! 2)) OR push_bit 24 (of_char (b ! 3))"

section \<open>Data model\<close>

record Executable =
  ExecName :: string
  ExecOS :: string

record DetectableApp =
  ID :: string
  Name :: string
  Executables :: "Executable list"

record ActivityAssets =
  LargeImage :: string
  LargeText :: string

record Activity =
  Details :: string
  State :: string
  Assets :: ActivityAssets

record ActivityArgs =
  Pid :: int
  Activity' :: Activity

record IpcHandshake =
  V :: int
  ClientID :: string

record DiscordRpcPayload =
  Cmd :: string
  Nonce :: string
  Args :: ActivityArgs

text \<open>The two values the program passes to \<open>json.Marshal\<close>.\<close>

datatype json_value = JHandshake IpcHandshake | JPayload DiscordRpcPayload

record golib =
  strings_MapToLower :: "string \<Rightarrow> string"
  json_Marshal :: "json_value \<Rightarrow> string"

text \<open>
  The package-level variables the loop reads (\<open>ignoredGames\<close>, a map whose values are
  all \<open>true\<close>, as the set of its keys; \<open>nameToID\<close>) and \<open>osRelease\<close>, which \<open>main\<close>
  computes once before the loop.
\<close>

record globals =
  ignoredGames :: "string set"
  nameToID :: "string \<rightharpoonup> string"
  osRelease :: string

section \<open>Name normalizer and game catalog\<close>

definition normalizeGameName :: "golib \<Rightarrow> string \<Rightarrow> string" where
  "normalizeGameName L input =
     ReplaceAllString_empty (strings_ToLower (strings_MapToLower L) input)"

fun populateMap :: "golib \<Rightarrow> DetectableApp list \<Rightarrow> (string \<rightharpoonup> string) \<Rightarrow> (string \<rightharpoonup> string)" where
  "populateMap L [] m = m"
| "populateMap L (app # apps) m =
     populateMap L apps (m(normalizeGameName L (Name app) \<mapsto> ID app))"

definition resolveClientID :: "golib \<Rightarrow> (string \<rightharpoonup> string) \<Rightarrow> string \<Rightarrow> string" where
  "resolveClientID L m name =
     (let norm = normalizeGameName L name
      in case m norm of Some ident \<Rightarrow> ident | None \<Rightarrow> ''000000000000000000'')"

section \<open>Process scanner\<close>

definition extractSteamGameName :: "string \<Rightarrow> string" where
  "extractSteamGameName fullPath =
     (let key = ''steamapps/common'';
          idx = strings_Index fullPath key
      in if idx = - 1 then []
         else (let name = drop (nat idx + length key) fullPath;
                   name = strings_TrimPrefix name ''/'';
                   parts = strings_SplitN_2 name ''/''
               in if length parts > 0 then parts ! 0 else []))"

text \<open>
  The process table as the scanner sees it: the result of \<open>os.ReadDir("/proc")\<close>
  (\<open>None\<close> when it fails), and for a directory name the results of
  \<open>os.Readlink("/proc/<name>/exe")\<close> and \<open>os.ReadFile("/proc/<name>/cmdline")\<close>.
\<close>

record dirent =
  EntryName :: string
  EntryIsDir :: bool

record procfs =
  ReadDir_proc :: "dirent list option"
  Readlink_exe :: "string \<Rightarrow> string option"
  ReadFile_cmdline :: "string \<Rightarrow> string option"

datatype go_panic = IndexOutOfRange

fun scanArgs :: "string set \<Rightarrow> string list \<Rightarrow> string" where
  "scanArgs ignored [] = []"
| "scanArgs ignored (arg # args) =
     (if length arg = 0 then scanArgs ignored args
      else (let name = extractSteamGameName arg
            in if name \<noteq> [] \<and> name \<notin> ignored then name else scanArgs ignored args))"

definition scanCmdline :: "string set \<Rightarrow> procfs \<Rightarrow> string \<Rightarrow> string" where
  "scanCmdline ignored fs pidStr =
     (case ReadFile_cmdline fs pidStr of
        None \<Rightarrow> []
      | Some data \<Rightarrow> scanArgs ignored (bytes_Split data (CHR 0x00)))"

text \<open>
  One iteration of the loop of \<open>scanProcesses\<close>: \<open>Inr None\<close> is \<open>continue\<close> (or the
  end of the body), \<open>Inr (Some r)\<close> is \<open>return r\<close>, \<open>Inl\<close> is the run-time panic of
  \<open>pidStr[0]\<close> on an empty name.
\<close>

definition scanEntry :: "string set \<Rightarrow> procfs \<Rightarrow> dirent \<Rightarrow> go_panic + (string \<times> int) option" where
  "scanEntry ignored fs entry =
     (if \<not> EntryIsDir entry then Inr None
      else (let pidStr = EntryName entry
            in if pidStr = [] then Inl IndexOutOfRange
               else if pidStr ! 0 < CHR ''0'' \<or> pidStr ! 0 > CHR ''9'' then Inr None
               else (let found =
                           (case Readlink_exe fs pidStr of
                              None \<Rightarrow> None
                            | Some exePath \<Rightarrow>
                                (let name = extractSteamGameName exePath
                                 in if name \<noteq> [] \<and> name \<notin> ignored
                                    then Some (name, Sscanf_d pidStr) else None))
                     in case found of
                          Some r \<Rightarrow> Inr (Some r)
                        | None \<Rightarrow>
                            (let name = scanCmdline ignored fs pidStr
                             in if name \<noteq> [] \<and> name \<notin> ignored
                                then Inr (Some (name, Sscanf_d pidStr)) else Inr None))))"

fun scanLoop :: "string set \<Rightarrow> procfs \<Rightarrow> dirent list \<Rightarrow> go_panic + (string \<times> int)" where
  "scanLoop ignored fs [] = Inr ([], 0)"
| "scanLoop ignored fs (entry # entries) =
     (case scanEntry ignored fs entry of
        Inl p \<Rightarrow> Inl p
      | Inr (Some r) \<Rightarrow> Inr r
      | Inr None \<Rightarrow> scanLoop ignored fs entries)"

definition scanProcesses :: "string set \<Rightarrow> procfs \<Rightarrow> go_panic + (string \<times> int)" where
  "scanProcesses ignored fs =
     (case ReadDir_proc fs of
        None \<Rightarrow> Inr ([], 0)
      | Some entries \<Rightarrow> scanLoop ignored fs entries)"

section \<open>IPC codec\<close>

text \<open>
  The bytes \<open>sendIPCPacket\<close> collects in \<open>buf\<close> before the single \<open>conn.Write\<close>:
  \<open>int32(opcode)\<close> and \<open>int32(len(payload))\<close>, both little endian, then the payload.
  The conversions to \<open>int32\<close> keep the low 32 bits.
\<close>

definition sendIPCPacket_buf :: "int \<Rightarrow> string \<Rightarrow> string" where
  "sendIPCPacket_buf opcode payload =
     PutUint32 (word_of_int opcode) @ PutUint32 (word_of_nat (length payload)) @ payload"

text \<open>
  \<open>conn.Read(buf)\<close> for a buffer of \<open>n\<close> bytes, on a connection whose peer has
  sent \<open>pending\<close> and then closed. A buffer of length zero reads nothing and succeeds;
  an exhausted connection is an error; otherwise one call copies a prefix of the
  pending bytes into the zero-filled buffer: as many as fit, but never more than
  \<open>most\<close> (at least one), since a stream socket may return less than was asked
  for. The result is the buffer after the call and the bytes still pending.
\<close>

definition conn_Read :: "nat \<Rightarrow> nat \<Rightarrow> string \<Rightarrow> (string \<times> string) option" where
  "conn_Read most n pending =
     (if n = 0 then Some ([], pending)
      else if pending = [] then None
      else (let got = take (min n (max 1 most)) pending
            in Some (got @ replicate (n - length got) (CHR 0x00),
                     drop (length got) pending)))"

text \<open>
  What \<open>readIpcResponse\<close> writes to the log; it returns nothing. Each of its two
  reads is a single call of \<open>conn.Read\<close>.
\<close>

datatype ipc_log = HeaderReadFailed | PayloadReadFailed | DiscordResponse string

definition readIpcResponse :: "nat \<Rightarrow> string \<Rightarrow> ipc_log" where
  "readIpcResponse most pending =
     (case conn_Read most 8 pending of
        None \<Rightarrow> HeaderReadFailed
      | Some (header, rest) \<Rightarrow>
          (let dataLen = Uint32 (take 4 (drop 4 header))
           in case conn_Read most (unat dataLen) rest of
                None \<Rightarrow> PayloadReadFailed
              | Some (payload, rest') \<Rightarrow> DiscordResponse payload))"

section \<open>Connection session\<close>

text \<open>
  What one tick finds outside the program: the process table, the user id, which
  paths \<open>os.Stat\<close> finds, whether \<open>net.Dial\<close> on a path gives a connection (a handle)
  and whether \<open>conn.Write\<close> of given bytes succeeds, the bytes the peer sends on a
  connection and the most one \<open>conn.Read\<close> returns of them, and the clock.
\<close>

record env =
  Proc :: procfs
  Getuid :: int
  Stat_ok :: "string \<Rightarrow> bool"
  Dial :: "string \<Rightarrow> nat option"
  Write_ok :: "nat \<Rightarrow> string \<Rightarrow> bool"
  Incoming :: "nat \<Rightarrow> string"
  ReadMost :: nat
  UnixNano :: int

text \<open>The socket operations of a tick, in order.\<close>

datatype event =
    EvDial string "nat option"
  | EvWrite nat string bool
  | EvRead nat ipc_log
  | EvClose nat

datatype go_error = DialError | WriteError | SocketNotFound

definition findDiscordSocket :: "env \<Rightarrow> go_error + string" where
  "findDiscordSocket e =
     (let uid = Getuid e;
          candidates =
            [''/run/user/'' @ Sprintf_d uid @ ''/discord-ipc-0'',
             ''/run/user/'' @ Sprintf_d uid @ ''/app/com.discordapp.Discord/discord-ipc-0'',
             ''/run/user/'' @ Sprintf_d uid @ ''/snap.discord/discord-ipc-0'']
      in case find (Stat_ok e) candidates of
           Some path \<Rightarrow> Inr path
         | None \<Rightarrow> Inl SocketNotFound)"

text \<open>\<open>socketPath, _ = findDiscordSocket()\<close>: the path, or the empty string with the error dropped.\<close>

definition findDiscordSocket_path :: "env \<Rightarrow> string" where
  "findDiscordSocket_path e = (case findDiscordSocket e of Inr path \<Rightarrow> path | Inl err \<Rightarrow> [])"

definition sendIPCPacket :: "env \<Rightarrow> nat \<Rightarrow> int \<Rightarrow> string \<Rightarrow> bool \<times> event list" where
  "sendIPCPacket e conn opcode payload =
     (let buf = sendIPCPacket_buf opcode payload;
          ok = Write_ok e conn buf
      in (ok, [EvWrite conn buf ok]))"

definition connectIPC :: "golib \<Rightarrow> env \<Rightarrow> string \<Rightarrow> string \<Rightarrow> (go_error + nat) \<times> event list" where
  "connectIPC L e path clientID =
     (case Dial e path of
        None \<Rightarrow> (Inl DialError, [EvDial path None])
      | Some conn \<Rightarrow>
          (let handshake = \<lparr>V = 1, ClientID = clientID\<rparr>;
               payload = json_Marshal L (JHandshake handshake);
               (ok, evs) = sendIPCPacket e conn 0 payload
           in if \<not> ok then (Inl WriteError, EvDial path (Some conn) # evs @ [EvClose conn])
              else (Inr conn,
                    EvDial path (Some conn) # evs @
                    [EvRead conn (readIpcResponse (ReadMost e) (Incoming e conn))])))"

text \<open>The value \<open>setActivity\<close> builds for \<open>json.Marshal\<close>; \<open>nano\<close> is \<open>time.Now().UnixNano()\<close>.\<close>

definition setActivity_payload :: "string \<Rightarrow> int \<Rightarrow> string \<Rightarrow> int \<Rightarrow> DiscordRpcPayload" where
  "setActivity_payload appName pid osRel nano =
     (let activity =
            (if appName \<noteq> []
             then \<lparr>Details = ''Playing '' @ appName, State = ''On '' @ osRel,
                   Assets = \<lparr>LargeImage = ''default'', LargeText = appName\<rparr>\<rparr>
             else \<lparr>Details = [], State = [],
                   Assets = \<lparr>LargeImage = [], LargeText = []\<rparr>\<rparr>)
      in \<lparr>Cmd = ''SET_ACTIVITY'', Nonce = Sprintf_d nano,
          Args = \<lparr>Pid = pid, Activity' = activity\<rparr>\<rparr>)"

definition setActivity :: "golib \<Rightarrow> env \<Rightarrow> nat \<Rightarrow> string \<Rightarrow> int \<Rightarrow> string \<Rightarrow> bool \<times> event list" where
  "setActivity L e conn appName pid osRel =
     (let payload = setActivity_payload appName pid osRel (UnixNano e);
          data = json_Marshal L (JPayload payload)
      in sendIPCPacket e conn 1 data)"

section \<open>Bridge loop\<close>

text \<open>The three variables of \<open>main\<close> that live across ticks.\<close>

record session =
  socketPath :: string
  currentClientID :: string
  ipcConn :: "nat option"

definition main_init :: "env \<Rightarrow> session" where
  "main_init e = \<lparr>socketPath = findDiscordSocket_path e, currentClientID = [], ipcConn = None\<rparr>"

text \<open>No game running: clear the status if connected.\<close>

definition tick_no_game :: "session \<Rightarrow> session \<times> event list" where
  "tick_no_game s =
     (case ipcConn s of
        Some conn \<Rightarrow> (s\<lparr>ipcConn := None, currentClientID := []\<rparr>, [EvClose conn])
      | None \<Rightarrow> (s, []))"

text \<open>Connected, but with another identifier: disconnect.\<close>

definition tick_switch :: "string \<Rightarrow> session \<Rightarrow> session \<times> event list" where
  "tick_switch targetClientID s =
     (case ipcConn s of
        Some conn \<Rightarrow>
          (if currentClientID s \<noteq> targetClientID then (s\<lparr>ipcConn := None\<rparr>, [EvClose conn])
           else (s, []))
      | None \<Rightarrow> (s, []))"

text \<open>
  Connect if disconnected. The third component is \<open>True\<close> when the body ends here
  with \<open>continue\<close>.
\<close>

definition tick_connect :: "golib \<Rightarrow> env \<Rightarrow> string \<Rightarrow> session \<Rightarrow> session \<times> event list \<times> bool" where
  "tick_connect L e targetClientID s =
     (if ipcConn s = None
      then (let s1 = (if socketPath s = [] then s\<lparr>socketPath := findDiscordSocket_path e\<rparr>
                      else s)
            in if socketPath s1 \<noteq> []
               then (case connectIPC L e (socketPath s1) targetClientID of
                       (Inr conn, evs) \<Rightarrow>
                         (s1\<lparr>ipcConn := Some conn, currentClientID := targetClientID\<rparr>, evs, False)
                     | (Inl err, evs) \<Rightarrow> (s1, evs, True))
               else (s1, [], False))
      else (s, [], False))"

text \<open>Set the activity if connected; the result of \<open>setActivity\<close> is dropped.\<close>

definition tick_activity :: "golib \<Rightarrow> globals \<Rightarrow> env \<Rightarrow> string \<Rightarrow> int \<Rightarrow> session \<Rightarrow> event list" where
  "tick_activity L G e gameName pid s =
     (case ipcConn s of
        Some conn \<Rightarrow> snd (setActivity L e conn gameName pid (osRelease G))
      | None \<Rightarrow> [])"

text \<open>The body of the loop of \<open>main\<close> after \<open>scanProcesses\<close> has returned.\<close>

definition tick_body :: "golib \<Rightarrow> globals \<Rightarrow> env \<Rightarrow> session \<Rightarrow> string \<Rightarrow> int \<Rightarrow> session \<times> event list" where
  "tick_body L G e s gameName pid =
     (if gameName = [] then tick_no_game s
      else (let targetClientID = resolveClientID L (nameToID G) gameName;
                (s1, evs1) = tick_switch targetClientID s;
                (s2, evs2, continue) = tick_connect L e targetClientID s1
            in if continue then (s2, evs1 @ evs2)
               else (s2, evs1 @ evs2 @ tick_activity L G e gameName pid s2)))"

text \<open>One tick: scan, then the body. A panic of the scan ends the program.\<close>

definition main_tick :: "golib \<Rightarrow> globals \<Rightarrow> env \<Rightarrow> session \<Rightarrow> go_panic + session \<times> event list" where
  "main_tick L G e s =
     (case scanProcesses (ignoredGames G) (Proc e) of
        Inl p \<Rightarrow> Inl p
      | Inr (gameName, pid) \<Rightarrow> Inr (tick_body L G e s gameName pid))"

text \<open>
  The loop over the ticks of a run, one environment per tick: the final session and
  the events of each tick.
\<close>

fun main_loop :: "golib \<Rightarrow> globals \<Rightarrow> env list \<Rightarrow> session \<Rightarrow> go_panic + session \<times> event list list" where
  "main_loop L G [] s = Inr (s, [])"
| "main_loop L G (e # es) s =
     (case main_tick L G e s of
        Inl p \<Rightarrow> Inl p
      | Inr (s', evs) \<Rightarrow>
          (case main_loop L G es s' of
             Inl p \<Rightarrow> Inl p
           | Inr (s'', evss) \<Rightarrow> Inr (s'', evs # evss)))"

section \<open>Vocabulary of the properties\<close>

text \<open>A connection attempt is a call of \<open>net.Dial\<close>.\<close>

fun is_dial :: "event \<Rightarrow> bool" where
  "is_dial (EvDial path result) = True"
| "is_dial (EvWrite conn buf ok) = False"
| "is_dial (EvRead conn logged) = False"
| "is_dial (EvClose conn) = False"

text \<open>A write whose first four bytes are the given opcode; opcode 1 is an activity update.\<close>

fun is_frame :: "int \<Rightarrow> event \<Rightarrow> bool" where
  "is_frame opcode (EvDial path result) = False"
| "is_frame opcode (EvWrite conn buf ok) = (take 4 buf = PutUint32 (word_of_int opcode))"
| "is_frame opcode (EvRead conn logged) = False"
| "is_frame opcode (EvClose conn) = False"

text \<open>The frames of a handshake and of an activity update, as the program builds them.\<close>

definition handshake_frame :: "golib \<Rightarrow> string \<Rightarrow> string" where
  "handshake_frame L clientID =
     sendIPCPacket_buf 0 (json_Marshal L (JHandshake \<lparr>V = 1, ClientID = clientID\<rparr>))"

definition activity_frame :: "golib \<Rightarrow> globals \<Rightarrow> env \<Rightarrow> string \<Rightarrow> int \<Rightarrow> string" where
  "activity_frame L G e gameName pid =
     sendIPCPacket_buf 1
       (json_Marshal L (JPayload (setActivity_payload gameName pid (osRelease G) (UnixNano e))))"

text \<open>The event of closing the connection a session holds, if it holds one.\<close>

definition closes :: "session \<Rightarrow> event list" where
  "closes s = (case ipcConn s of Some conn \<Rightarrow> [EvClose conn] | None \<Rightarrow> [])"

text \<open>Names that are decimal numbers, and a process table restricted to some of its entries.\<close>

definition numeric_entry :: "dirent \<Rightarrow> bool" where
  "numeric_entry entry = (EntryName entry \<noteq> [] \<and> list_all is_digit (EntryName entry))"

definition keep_entries :: "(dirent \<Rightarrow> bool) \<Rightarrow> procfs \<Rightarrow> procfs" where
  "keep_entries P fs = fs\<lparr>ReadDir_proc := map_option (filter P) (ReadDir_proc fs)\<rparr>"

text \<open>
  The entries the loop of \<open>scanProcesses\<close> passes over with \<open>continue\<close> before it
  looks at the process: those that are no directory, and those whose name begins with
  a byte that is no digit.
\<close>

definition scan_skips :: "dirent \<Rightarrow> bool" where
  "scan_skips entry =
     (\<not> EntryIsDir entry \<or> (EntryName entry \<noteq> [] \<and> \<not> is_digit (EntryName entry ! 0)))"

definition scan_looks_at :: "dirent \<Rightarrow> bool" where
  "scan_looks_at entry = (\<not> scan_skips entry)"

section \<open>Concrete inputs\<close>

text \<open>The ignore set the program starts with, before \<open>loadConfig\<close> adds to it.\<close>

definition ignoredGames_default :: "string set" where
  "ignoredGames_default =
     {''SteamLinuxRuntime_soldier'', ''SteamLinuxRuntime_sniper'', ''SteamLinuxRuntime''}"

text \<open>
  An instance of the library for the examples: the identity for the Unicode path of
  \<open>ToLower\<close>, and the output of \<open>json.Marshal\<close> for values whose strings need no
  escaping.
\<close>

definition json_quote :: "string \<Rightarrow> string" where
  "json_quote s = [CHR 0x22] @ s @ [CHR 0x22]"

definition json_key :: "string \<Rightarrow> string" where
  "json_key k = json_quote k @ '':''"

fun json_plain :: "json_value \<Rightarrow> string" where
  "json_plain (JHandshake h) =
     ''{'' @ json_key ''v'' @ Sprintf_d (V h) @ '','' @
     json_key ''client_id'' @ json_quote (ClientID h) @ ''}''"
| "json_plain (JPayload p) =
     ''{'' @ json_key ''cmd'' @ json_quote (Cmd p) @ '','' @
     json_key ''nonce'' @ json_quote (Nonce p) @ '','' @
     json_key ''args'' @ ''{'' @ json_key ''pid'' @ Sprintf_d (Pid (Args p)) @ '','' @
     json_key ''activity'' @ ''{'' @
     json_key ''details'' @ json_quote (Details (Activity' (Args p))) @ '','' @
     json_key ''state'' @ json_quote (State (Activity' (Args p))) @ '','' @
     json_key ''assets'' @ ''{'' @
     json_key ''large_image'' @ json_quote (LargeImage (Assets (Activity' (Args p)))) @ '','' @
     json_key ''large_text'' @ json_quote (LargeText (Assets (Activity' (Args p)))) @
     ''}}}}''"

definition golib_plain :: golib where
  "golib_plain = \<lparr>strings_MapToLower = (\<lambda>s. s), json_Marshal = json_plain\<rparr>"

text \<open>A catalog of two applications; the identifier of the second is made up.\<close>

definition apps_balatro :: "DetectableApp list" where
  "apps_balatro =
     [\<lparr>ID = ''1209665818464358430'', Name = ''Balatro'',
       Executables = [\<lparr>ExecName = ''balatro/balatro.exe'', ExecOS = ''win32''\<rparr>]\<rparr>,
      \<lparr>ID = ''100000000000000001'', Name = ''RimWorld'', Executables = []\<rparr>]"

definition globals_balatro :: globals where
  "globals_balatro =
     \<lparr>ignoredGames = ignoredGames_default,
      nameToID = populateMap golib_plain apps_balatro Map.empty,
      osRelease = ''Fedora Linux 43''\<rparr>"

text \<open>
  Process tables: Balatro running natively as process 4321 beside a container runtime
  of the ignore set; RimWorld running under a compatibility layer as process 555, to
  be found in its arguments only; no game; and a table with a directory \<open>4x\<close>.
\<close>

definition procfs_balatro :: procfs where
  "procfs_balatro =
     \<lparr>ReadDir_proc =
        Some [\<lparr>EntryName = ''1'', EntryIsDir = True\<rparr>,
              \<lparr>EntryName = ''77'', EntryIsDir = True\<rparr>,
              \<lparr>EntryName = ''4321'', EntryIsDir = True\<rparr>,
              \<lparr>EntryName = ''self'', EntryIsDir = True\<rparr>,
              \<lparr>EntryName = ''uptime'', EntryIsDir = False\<rparr>],
      Readlink_exe =
        (\<lambda>pidStr. if pidStr = ''1'' then Some ''/usr/lib/systemd/systemd''
                  else if pidStr = ''77''
                  then Some ''/s/steamapps/common/SteamLinuxRuntime_sniper/pv''
                  else if pidStr = ''4321'' then Some ''/s/steamapps/common/Balatro/love''
                  else None),
      ReadFile_cmdline =
        (\<lambda>pidStr. if pidStr = ''77''
                  then Some (''/s/steamapps/common/SteamLinuxRuntime/run'' @ [CHR 0x00] @
                             ''--verb'' @ [CHR 0x00])
                  else None)\<rparr>"

definition procfs_rimworld :: procfs where
  "procfs_rimworld =
     \<lparr>ReadDir_proc =
        Some [\<lparr>EntryName = ''1'', EntryIsDir = True\<rparr>,
              \<lparr>EntryName = ''555'', EntryIsDir = True\<rparr>],
      Readlink_exe =
        (\<lambda>pidStr. if pidStr = ''555'' then Some ''/usr/bin/wine64-preloader''
                  else Some ''/usr/lib/systemd/systemd''),
      ReadFile_cmdline =
        (\<lambda>pidStr. if pidStr = ''555''
                  then Some (''Z:/s/steamapps/common/RimWorld/RimWorldWin64.exe'' @ [CHR 0x00])
                  else None)\<rparr>"

definition procfs_idle :: procfs where
  "procfs_idle =
     \<lparr>ReadDir_proc = Some [\<lparr>EntryName = ''1'', EntryIsDir = True\<rparr>],
      Readlink_exe = (\<lambda>pidStr. Some ''/usr/lib/systemd/systemd''),
      ReadFile_cmdline = (\<lambda>pidStr. None)\<rparr>"

definition procfs_4x :: procfs where
  "procfs_4x =
     \<lparr>ReadDir_proc = Some [\<lparr>EntryName = ''4x'', EntryIsDir = True\<rparr>],
      Readlink_exe = (\<lambda>pidStr. Some ''/s/steamapps/common/Balatro/love''),
      ReadFile_cmdline = (\<lambda>pidStr. None)\<rparr>"

text \<open>
  Environments of a tick: the peer listens on the first candidate path of user 1000,
  accepts every write and answers the handshake with one frame; the same with a peer
  that refuses the connection; the same with a peer that fails the first write; the
  same with a peer that never answers.
\<close>

definition env_up :: "procfs \<Rightarrow> env" where
  "env_up fs =
     \<lparr>Proc = fs, Getuid = 1000,
      Stat_ok = (\<lambda>path. path = ''/run/user/1000/discord-ipc-0''),
      Dial = (\<lambda>path. Some 3),
      Write_ok = (\<lambda>conn buf. True),
      Incoming = (\<lambda>conn. sendIPCPacket_buf 1 ''{}''),
      ReadMost = 4096,
      UnixNano = 1700000000000000000\<rparr>"

definition env_refused :: "procfs \<Rightarrow> env" where
  "env_refused fs = (env_up fs)\<lparr>Dial := (\<lambda>path. None)\<rparr>"

definition env_broken_pipe :: "procfs \<Rightarrow> env" where
  "env_broken_pipe fs = (env_up fs)\<lparr>Write_ok := (\<lambda>conn buf. False)\<rparr>"

definition env_silent :: "procfs \<Rightarrow> env" where
  "env_silent fs = (env_up fs)\<lparr>Incoming := (\<lambda>conn. [])\<rparr>"

definition session_start :: session where
  "session_start = \<lparr>socketPath = [], currentClientID = [], ipcConn = None\<rparr>"

definition session_balatro :: session where
  "session_balatro =
     \<lparr>socketPath = ''/run/user/1000/discord-ipc-0'',
      currentClientID = ''1209665818464358430'', ipcConn = Some 3\<rparr>"

section \<open>Name normalizer: properties\<close>

lemma alnum_lower_ascii: "alnum_lower c \<Longrightarrow> c < CHR 0x80"
  by (auto simp: alnum_lower_def less_char_def less_eq_char_def)

lemma alnum_lower_fixed: "alnum_lower c \<Longrightarrow> ascii_lower c = c"
  by (auto simp: alnum_lower_def ascii_lower_def less_char_def less_eq_char_def)

lemma normalizeGameName_alnum: "\<forall>c\<in>set (normalizeGameName L x). alnum_lower c"
  by (simp add: normalizeGameName_def ReplaceAllString_empty_def)

lemma strings_ToLower_fixed:
  assumes "\<forall>c\<in>set s. alnum_lower c"
  shows "strings_ToLower f s = s"
proof -
  have "isASCII s"
    using assms by (auto simp: isASCII_def list_all_iff alnum_lower_ascii)
  moreover have "map ascii_lower s = s"
    using assms by (simp add: map_idI alnum_lower_fixed)
  ultimately show ?thesis
    by (simp add: strings_ToLower_def)
qed

text \<open>
  C9. \<open>normalizeGameName\<close> is idempotent, for every string and every behaviour of the
  Unicode path of \<open>ToLower\<close>; its result consists of bytes of \<open>[a-z0-9]\<close> only.
\<close>

theorem normalizeGameName_idempotent:
  "normalizeGameName L (normalizeGameName L x) = normalizeGameName L x \<and>
   list_all alnum_lower (normalizeGameName L x)"
proof -
  let ?y = "normalizeGameName L x"
  have all: "\<forall>c\<in>set ?y. alnum_lower c"
    by (rule normalizeGameName_alnum)
  have "strings_ToLower (strings_MapToLower L) ?y = ?y"
    using all by (rule strings_ToLower_fixed)
  moreover have "filter alnum_lower ?y = ?y"
    using all by simp
  ultimately have "normalizeGameName L ?y = ?y"
    by (simp add: normalizeGameName_def [of L ?y] ReplaceAllString_empty_def)
  then show ?thesis
    using all by (simp add: list_all_iff)
qed

theorem normalizeGameName_idempotent_witness:
  "normalizeGameName golib_plain (normalizeGameName golib_plain ''Half-Life 2: Episode One'') =
     ''halflife2episodeone'' \<and>
   normalizeGameName golib_plain ''Half-Life 2: Episode One'' = ''halflife2episodeone''"
proof -
  have v: "normalizeGameName golib_plain ''Half-Life 2: Episode One'' = ''halflife2episodeone''"
    by code_simp
  from normalizeGameName_idempotent [of golib_plain "''Half-Life 2: Episode One''"]
  show ?thesis
    by (simp only: v)
qed

section \<open>Game catalog: properties\<close>

lemma populateMap_keeps:
  "m k = Some v \<Longrightarrow> \<forall>a\<in>set apps. normalizeGameName L (Name a) = k \<longrightarrow> ID a = v \<Longrightarrow>
   populateMap L apps m k = Some v"
  by (induction apps arbitrary: m) auto

lemma populateMap_stores:
  assumes "app \<in> set apps"
    and "\<forall>a\<in>set apps. normalizeGameName L (Name a) = normalizeGameName L (Name app) \<longrightarrow>
           ID a = ID app"
  shows "populateMap L apps m (normalizeGameName L (Name app)) = Some (ID app)"
  using assms
proof (induction apps arbitrary: m)
  case Nil
  then show ?case by simp
next
  case (Cons a apps)
  have rest: "\<forall>b\<in>set apps. normalizeGameName L (Name b) = normalizeGameName L (Name app) \<longrightarrow>
      ID b = ID app"
    using Cons.prems(2) by (blast intro: list.set_intros)
  show ?case
  proof (cases "app \<in> set apps")
    case True
    show ?thesis
      by (simp only: populateMap.simps Cons.IH [OF True rest])
  next
    case False
    with Cons.prems(1) have "a = app" by simp
    have "populateMap L apps (m(normalizeGameName L (Name app) \<mapsto> ID app))
        (normalizeGameName L (Name app)) = Some (ID app)"
      by (rule populateMap_keeps [OF _ rest]) simp
    then show ?thesis
      by (simp only: populateMap.simps \<open>a = app\<close>)
  qed
qed

lemma populateMap_other:
  "\<forall>a\<in>set apps. normalizeGameName L (Name a) \<noteq> k \<Longrightarrow> populateMap L apps m k = m k"
  by (induction apps arbitrary: m) auto

text \<open>
  C4. A name whose normalized form is a key of the catalog resolves to the identifier
  stored under that key, and any other name resolves to the sentinel of eighteen
  zeros. For the catalog \<open>populateMap\<close> builds: an application of the list resolves to
  its own identifier (when no application of the same normalized name carries another
  identifier), and a name that matches no application resolves to the sentinel.
\<close>

theorem resolveClientID_catalog:
  "(m (normalizeGameName L name) = Some ident \<longrightarrow> resolveClientID L m name = ident) \<and>
   (m (normalizeGameName L name) = None \<longrightarrow>
      resolveClientID L m name = ''000000000000000000'') \<and>
   (app \<in> set apps \<and>
    (\<forall>a\<in>set apps. normalizeGameName L (Name a) = normalizeGameName L (Name app) \<longrightarrow>
        ID a = ID app) \<longrightarrow>
      resolveClientID L (populateMap L apps m0) (Name app) = ID app) \<and>
   ((\<forall>a\<in>set apps. normalizeGameName L (Name a) \<noteq> normalizeGameName L name) \<longrightarrow>
      resolveClientID L (populateMap L apps Map.empty) name = ''000000000000000000'')"
proof (intro conjI impI)
  assume "m (normalizeGameName L name) = Some ident"
  then show "resolveClientID L m name = ident"
    by (simp add: resolveClientID_def)
next
  assume "m (normalizeGameName L name) = None"
  then show "resolveClientID L m name = ''000000000000000000''"
    by (simp add: resolveClientID_def)
next
  assume a: "app \<in> set apps \<and>
    (\<forall>a\<in>set apps. normalizeGameName L (Name a) = normalizeGameName L (Name app) \<longrightarrow>
        ID a = ID app)"
  have "populateMap L apps m0 (normalizeGameName L (Name app)) = Some (ID app)"
    by (rule populateMap_stores [OF a [THEN conjunct1] a [THEN conjunct2]])
  then show "resolveClientID L (populateMap L apps m0) (Name app) = ID app"
    by (simp add: resolveClientID_def)
next
  assume a: "\<forall>a\<in>set apps. normalizeGameName L (Name a) \<noteq> normalizeGameName L name"
  have "populateMap L apps Map.empty (normalizeGameName L name) = Map.empty (normalizeGameName L name)"
    by (rule populateMap_other [OF a])
  then show "resolveClientID L (populateMap L apps Map.empty) name = ''000000000000000000''"
    by (simp add: resolveClientID_def)
qed

theorem resolveClientID_catalog_witness:
  "resolveClientID golib_plain (nameToID globals_balatro) ''Balatro'' = ''1209665818464358430'' \<and>
   resolveClientID golib_plain (nameToID globals_balatro) ''Celeste'' = ''000000000000000000''"
proof -
  have k: "nameToID globals_balatro (normalizeGameName golib_plain ''Balatro'') =
      Some ''1209665818464358430''"
    by code_simp
  have n: "nameToID globals_balatro (normalizeGameName golib_plain ''Celeste'') = None"
    by code_simp
  note t = resolveClientID_catalog [of "nameToID globals_balatro" golib_plain]
  have "resolveClientID golib_plain (nameToID globals_balatro) ''Balatro'' = ''1209665818464358430''"
    by (rule t [THEN conjunct1, THEN mp, OF k])
  moreover
  have "resolveClientID golib_plain (nameToID globals_balatro) ''Celeste'' = ''000000000000000000''"
    by (rule t [THEN conjunct2, THEN conjunct1, THEN mp, OF n])
  ultimately show ?thesis ..
qed

section \<open>Process scanner: properties\<close>

lemma scanArgs_not_ignored: "scanArgs ignored args = [] \<or> scanArgs ignored args \<notin> ignored"
  by (induction args) (auto simp: Let_def)

lemma scanCmdline_not_ignored:
  "scanCmdline ignored fs pidStr = [] \<or> scanCmdline ignored fs pidStr \<notin> ignored"
  by (simp add: scanCmdline_def scanArgs_not_ignored split: option.split)

lemma scanEntry_not_ignored:
  "scanEntry ignored fs entry = Inr (Some (name, pid)) \<Longrightarrow> name \<noteq> [] \<and> name \<notin> ignored"
  by (auto simp: scanEntry_def Let_def split: if_splits option.splits)

lemma scanLoop_not_ignored:
  "scanLoop ignored fs entries = Inr (name, pid) \<Longrightarrow> name = [] \<or> name \<notin> ignored"
proof (induction entries)
  case Nil
  then show ?case by simp
next
  case (Cons entry entries)
  show ?case
  proof (cases "scanEntry ignored fs entry")
    case (Inl p)
    with Cons.prems show ?thesis by simp
  next
    case (Inr found)
    show ?thesis
    proof (cases found)
      case None
      with Inr Cons show ?thesis by simp
    next
      case (Some r)
      with Inr Cons.prems have "scanEntry ignored fs entry = Inr (Some (name, pid))"
        by simp
      then show ?thesis
        by (auto dest: scanEntry_not_ignored)
    qed
  qed
qed

text \<open>
  C5. For every ignore set and every process table, a name of the ignore set is never
  the result of the scan, whether it comes from the executable link or from the
  arguments: the scan returns no game (the empty name) or a name outside the set. The
  same holds for the scan of one argument list.
\<close>

theorem scanProcesses_never_ignored:
  "(scanProcesses ignored fs = Inr (name, pid) \<longrightarrow> name = [] \<or> name \<notin> ignored) \<and>
   (scanCmdline ignored fs pidStr = [] \<or> scanCmdline ignored fs pidStr \<notin> ignored)"
proof (intro conjI impI)
  assume "scanProcesses ignored fs = Inr (name, pid)"
  then show "name = [] \<or> name \<notin> ignored"
    by (auto simp: scanProcesses_def split: option.splits dest: scanLoop_not_ignored)
next
  show "scanCmdline ignored fs pidStr = [] \<or> scanCmdline ignored fs pidStr \<notin> ignored"
    by (rule scanCmdline_not_ignored)
qed

theorem scanProcesses_never_ignored_witness:
  "scanProcesses ignoredGames_default procfs_balatro = Inr (''Balatro'', 4321) \<and>
   ''Balatro'' \<notin> ignoredGames_default \<and>
   ''SteamLinuxRuntime_sniper'' \<in> ignoredGames_default \<and>
   scanCmdline ignoredGames_default procfs_balatro ''77'' = []"
proof -
  have s: "scanProcesses ignoredGames_default procfs_balatro = Inr (''Balatro'', 4321)"
    by code_simp
  have c: "scanCmdline ignoredGames_default procfs_balatro ''77'' = []"
    by code_simp
  have i: "''SteamLinuxRuntime_sniper'' \<in> ignoredGames_default"
    by (simp add: ignoredGames_default_def)
  have "''Balatro'' = [] \<or> ''Balatro'' \<notin> ignoredGames_default"
    by (rule scanProcesses_never_ignored
      [of ignoredGames_default procfs_balatro "''Balatro''" 4321 "''77''",
        THEN conjunct1, THEN mp, OF s])
  then have "''Balatro'' \<notin> ignoredGames_default"
    by simp
  with s c i show ?thesis by (intro conjI)
qed

lemma scanEntry_ReadDir_proc:
  "scanEntry ignored (fs\<lparr>ReadDir_proc := d\<rparr>) entry = scanEntry ignored fs entry"
  by (simp add: scanEntry_def scanCmdline_def Let_def)

lemma scanLoop_ReadDir_proc:
  "scanLoop ignored (fs\<lparr>ReadDir_proc := d\<rparr>) entries = scanLoop ignored fs entries"
  by (induction entries) (simp_all add: scanEntry_ReadDir_proc split: sum.split option.split)

lemma scanEntry_skips: "scan_skips entry \<Longrightarrow> scanEntry ignored fs entry = Inr None"
  by (auto simp: scan_skips_def scanEntry_def is_digit_def Let_def)

lemma scanLoop_looks_at:
  "scanLoop ignored fs (filter scan_looks_at entries) = scanLoop ignored fs entries"
  by (induction entries)
    (simp_all add: scan_looks_at_def scanEntry_skips split: sum.split option.split)

text \<open>
  C8, as stated, fails: a directory \<open>4x\<close>, whose name is not a number, is scanned and
  yields a game with process id 4, and the table without it yields none.
\<close>

theorem scanProcesses_numeric_counterexample:
  "\<not> numeric_entry \<lparr>EntryName = ''4x'', EntryIsDir = True\<rparr> \<and>
   scanProcesses ignoredGames_default procfs_4x = Inr (''Balatro'', 4) \<and>
   scanProcesses ignoredGames_default (keep_entries numeric_entry procfs_4x) = Inr ([], 0)"
  by code_simp

text \<open>
  C8, amended. The scan passes over every entry that is no directory and every entry
  whose name begins with a byte other than a decimal digit: such an entry ends its
  iteration with \<open>continue\<close>, and the scan of the table without these entries gives the
  same result. Only directories whose names begin with a digit can contribute.
\<close>

theorem scanProcesses_first_byte:
  "(scan_skips entry \<longrightarrow> scanEntry ignored fs entry = Inr None) \<and>
   scanProcesses ignored (keep_entries scan_looks_at fs) = scanProcesses ignored fs"
proof (intro conjI impI)
  assume "scan_skips entry"
  then show "scanEntry ignored fs entry = Inr None"
    by (rule scanEntry_skips)
next
  show "scanProcesses ignored (keep_entries scan_looks_at fs) = scanProcesses ignored fs"
    by (cases "ReadDir_proc fs")
      (simp_all add: scanProcesses_def keep_entries_def scanLoop_ReadDir_proc scanLoop_looks_at)
qed

theorem scanProcesses_first_byte_witness:
  "scan_skips \<lparr>EntryName = ''self'', EntryIsDir = True\<rparr> \<and>
   scanEntry ignoredGames_default procfs_balatro \<lparr>EntryName = ''self'', EntryIsDir = True\<rparr> =
     Inr None \<and>
   scanProcesses ignoredGames_default (keep_entries scan_looks_at procfs_balatro) =
     Inr (''Balatro'', 4321)"
proof -
  have k: "scan_skips \<lparr>EntryName = ''self'', EntryIsDir = True\<rparr>"
    by code_simp
  have s: "scanProcesses ignoredGames_default procfs_balatro = Inr (''Balatro'', 4321)"
    by code_simp
  note t = scanProcesses_first_byte
    [of "\<lparr>EntryName = ''self'', EntryIsDir = True\<rparr>" ignoredGames_default procfs_balatro]
  have "scanEntry ignoredGames_default procfs_balatro
      \<lparr>EntryName = ''self'', EntryIsDir = True\<rparr> = Inr None"
    by (rule t [THEN conjunct1, THEN mp, OF k])
  moreover have "scanProcesses ignoredGames_default
      (keep_entries scan_looks_at procfs_balatro) = Inr (''Balatro'', 4321)"
    by (simp only: t [THEN conjunct2] s)
  ultimately show ?thesis
    using k by (intro conjI)
qed

section \<open>IPC codec: properties\<close>

lemma of_char_char_of_word:
  "(of_char (char_of (unat (w :: 32 word))) :: 32 word) = take_bit 8 w"
proof -
  have "(of_char (char_of (unat w)) :: 32 word) = of_nat (of_char (char_of (unat w)))"
    by (simp only: of_nat_of_char)
  also have "\<dots> = of_nat (take_bit 8 (unat w))"
    by (simp add: take_bit_eq_mod)
  also have "\<dots> = take_bit 8 w"
    by (simp add: unsigned_take_bit_eq [symmetric])
  finally show ?thesis .
qed

lemma Uint32_PutUint32: "Uint32 (PutUint32 v) = v"
proof -
  have "take_bit 8 v OR push_bit 8 (take_bit 8 (drop_bit 8 v)) OR
      push_bit 16 (take_bit 8 (drop_bit 16 v)) OR push_bit 24 (take_bit 8 (drop_bit 24 v)) = v"
  proof (rule bit_eqI)
    fix n
    assume "possible_bit TYPE(32 word) n"
    then have n: "n < 32"
      by (simp add: possible_bit_word)
    consider "n < 8" | "8 \<le> n" "n < 16" | "16 \<le> n" "n < 24" | "24 \<le> n"
      by linarith
    then show "bit (take_bit 8 v OR push_bit 8 (take_bit 8 (drop_bit 8 v)) OR
        push_bit 16 (take_bit 8 (drop_bit 16 v)) OR push_bit 24 (take_bit 8 (drop_bit 24 v))) n =
        bit v n"
      using n by cases (auto simp add: bit_simps)
  qed
  then show ?thesis
    by (simp add: Uint32_def PutUint32_def of_char_char_of_word)
qed

lemma opcode_field: "take 4 (sendIPCPacket_buf opcode body) = PutUint32 (word_of_int opcode)"
  by (simp add: sendIPCPacket_buf_def PutUint32_def)

lemma length_field:
  "take 4 (drop 4 (sendIPCPacket_buf opcode body)) = PutUint32 (word_of_nat (length body))"
  by (simp add: sendIPCPacket_buf_def PutUint32_def)

lemma body_field: "drop 8 (sendIPCPacket_buf opcode body) = body"
  by (simp add: sendIPCPacket_buf_def PutUint32_def)

lemma conn_Read_header:
  assumes "8 \<le> most"
  shows "conn_Read most 8 (sendIPCPacket_buf opcode body) =
     Some (PutUint32 (word_of_int opcode) @ PutUint32 (word_of_nat (length body)), body)"
proof -
  have m: "min 8 (max 1 most) = 8"
    using assms by simp
  show ?thesis
    unfolding conn_Read_def m
    by (simp add: sendIPCPacket_buf_def PutUint32_def)
qed

lemma header_length_field: "take 4 (drop 4 (PutUint32 a @ PutUint32 b)) = PutUint32 b"
  by (simp add: PutUint32_def)

lemma conn_Read_all:
  assumes "length body \<le> most"
  shows "conn_Read most (length body) body = Some (body, [])"
proof -
  have m: "min (length body) (max 1 most) = length body"
    using assms by simp
  show ?thesis
    unfolding conn_Read_def m
    by simp
qed

lemma readIpcResponse_frame:
  "8 \<le> most \<Longrightarrow>
   readIpcResponse most (sendIPCPacket_buf opcode body) =
     (case conn_Read most (unat (word_of_nat (length body) :: 32 word)) body of
        None \<Rightarrow> PayloadReadFailed
      | Some (payload, rest') \<Rightarrow> DiscordResponse payload)"
  by (simp only: readIpcResponse_def conn_Read_header option.case prod.case
      header_length_field Uint32_PutUint32 Let_def)

lemma PutUint32_0_1: "PutUint32 (word_of_int 0) \<noteq> PutUint32 (word_of_int 1)"
  by code_simp

text \<open>
  C3, as stated, fails for a body of \<open>2 ^ 32\<close> bytes: \<open>int32(len(payload))\<close> keeps the
  low 32 bits, so the length field is zero, and \<open>readIpcResponse\<close> reads an empty
  body back, even when each read returns all it asks for.
\<close>

theorem sendIPCPacket_length_counterexample:
  "unat (Uint32 (take 4 (drop 4 (sendIPCPacket_buf 1 (replicate (2 ^ 32) (CHR 0x00)))))) \<noteq>
     length (replicate (2 ^ 32) (CHR 0x00)) \<and>
   readIpcResponse (2 ^ 33) (sendIPCPacket_buf 1 (replicate (2 ^ 32) (CHR 0x00))) \<noteq>
     DiscordResponse (replicate (2 ^ 32) (CHR 0x00))"
proof -
  let ?body = "replicate (2 ^ 32) (CHR 0x00)"
  have len: "(word_of_nat (length ?body) :: 32 word) = 0"
    by simp
  have field: "Uint32 (take 4 (drop 4 (sendIPCPacket_buf 1 ?body))) = 0"
    by (simp only: length_field Uint32_PutUint32 len)
  have most: "(8 :: nat) \<le> 2 ^ 33"
    by simp
  have zero: "conn_Read (2 ^ 33) (unat (0 :: 32 word)) ?body = Some ([], ?body)"
    by (simp add: conn_Read_def)
  have "readIpcResponse (2 ^ 33) (sendIPCPacket_buf 1 ?body) = DiscordResponse []"
    by (simp only: readIpcResponse_frame [OF most] len zero option.case prod.case)
  moreover have "?body \<noteq> []"
    by simp
  ultimately show ?thesis
    using field by simp
qed

text \<open>
  C3, amended. For every opcode of the signed 32-bit range and every body of fewer
  than \<open>2 ^ 32\<close> bytes, the frame \<open>sendIPCPacket\<close> writes is the opcode in four bytes,
  little endian, then the length of the body in four bytes, little endian, then the
  body and nothing more; \<open>readIpcResponse\<close>, the reader of the program, reads exactly
  the body back from it (the opcode it does not decode) when each of its two reads
  returns all the bytes it asks for.
\<close>

theorem sendIPCPacket_roundtrip:
  assumes "- (2 ^ 31) \<le> opcode" and "opcode < 2 ^ 31" and "length body < 2 ^ 32"
    and "8 \<le> most" and "length body \<le> most"
  shows "readIpcResponse most (sendIPCPacket_buf opcode body) = DiscordResponse body \<and>
    sint (Uint32 (take 4 (sendIPCPacket_buf opcode body))) = opcode \<and>
    unat (Uint32 (take 4 (drop 4 (sendIPCPacket_buf opcode body)))) = length body \<and>
    drop 8 (sendIPCPacket_buf opcode body) = body"
proof -
  have len: "unat (word_of_nat (length body) :: 32 word) = length body"
    using assms(3) by (simp add: unat_of_nat)
  have opc: "sint (word_of_int opcode :: 32 word) = opcode"
    using assms(1,2) by (simp add: signed_of_int signed_take_bit_int_eq_self_iff)
  have "readIpcResponse most (sendIPCPacket_buf opcode body) = DiscordResponse body"
    by (simp only: readIpcResponse_frame [OF assms(4)] len conn_Read_all [OF assms(5)]
        option.case prod.case)
  moreover have "sint (Uint32 (take 4 (sendIPCPacket_buf opcode body))) = opcode"
    by (simp only: opcode_field Uint32_PutUint32 opc)
  moreover have "unat (Uint32 (take 4 (drop 4 (sendIPCPacket_buf opcode body)))) = length body"
    by (simp only: length_field Uint32_PutUint32 len)
  ultimately show ?thesis
    by (simp only: body_field simp_thms)
qed

theorem sendIPCPacket_roundtrip_witness:
  "readIpcResponse 4096 (sendIPCPacket_buf 1 ''{}'') = DiscordResponse ''{}'' \<and>
   sint (Uint32 (take 4 (sendIPCPacket_buf 1 ''{}''))) = 1 \<and>
   unat (Uint32 (take 4 (drop 4 (sendIPCPacket_buf 1 ''{}'')))) = length ''{}'' \<and>
   drop 8 (sendIPCPacket_buf 1 ''{}'') = ''{}''"
proof -
  have a: "- (2 ^ 31) \<le> (1 :: int)" by simp
  have b: "(1 :: int) < 2 ^ 31" by simp
  have c: "length ''{}'' < 2 ^ 32" by simp
  have d: "(8 :: nat) \<le> 4096" by simp
  have e: "length ''{}'' \<le> 4096" by simp
  show ?thesis
    by (rule sendIPCPacket_roundtrip [OF a b c d e])
qed

text \<open>A read that returns less than was asked for loses the rest of the body.\<close>

lemma readIpcResponse_short_read:
  "readIpcResponse 1 (sendIPCPacket_buf 1 ''{}'') \<noteq> DiscordResponse ''{}''"
  by code_simp

section \<open>Connection session: properties\<close>

lemma connectIPC_success:
  assumes "Dial e path = Some conn" and "Write_ok e conn (handshake_frame L clientID)"
  shows "connectIPC L e path clientID =
    (Inr conn,
     [EvDial path (Some conn), EvWrite conn (handshake_frame L clientID) True,
      EvRead conn (readIpcResponse (ReadMost e) (Incoming e conn))])"
  using assms by (simp add: connectIPC_def sendIPCPacket_def handshake_frame_def)

lemma connectIPC_failure:
  assumes "connectIPC L e path clientID = (Inl err, evs)"
  shows "evs = [EvDial path None] \<or>
    (\<exists>conn. evs = [EvDial path (Some conn), EvWrite conn (handshake_frame L clientID) False,
                    EvClose conn])"
  using assms
  by (auto simp: connectIPC_def sendIPCPacket_def handshake_frame_def Let_def
      split: option.splits if_splits)

lemma handshake_frame_opcode: "take 4 (handshake_frame L clientID) \<noteq> PutUint32 (word_of_int 1)"
  using PutUint32_0_1 by (simp add: handshake_frame_def opcode_field)

lemma connectIPC_failure_events:
  assumes "connectIPC L e path clientID = (Inl err, evs)"
  shows "length (filter is_dial evs) = 1 \<and> filter (is_frame 1) evs = []"
  using connectIPC_failure [OF assms] handshake_frame_opcode [of L clientID]
  by auto

lemma readIpcResponse_failures:
  "readIpcResponse most [] = HeaderReadFailed \<and>
   readIpcResponse 4096 (PutUint32 0 @ PutUint32 2) = PayloadReadFailed"
proof
  show "readIpcResponse most [] = HeaderReadFailed"
    by (simp add: readIpcResponse_def conn_Read_def)
  show "readIpcResponse 4096 (PutUint32 0 @ PutUint32 2) = PayloadReadFailed"
    by code_simp
qed

text \<open>
  C10. When the dial and the write of the handshake frame succeed, \<open>connectIPC\<close>
  returns the connection, whatever the peer sends back: the outcome of
  \<open>readIpcResponse\<close>, failures of the header or the payload read included, is logged
  and changes nothing in the result.
\<close>

theorem connectIPC_ignores_response:
  assumes "Dial e path = Some conn"
    and "Write_ok e conn
           (sendIPCPacket_buf 0 (json_Marshal L (JHandshake \<lparr>V = 1, ClientID = clientID\<rparr>)))"
  shows "connectIPC L (e\<lparr>Incoming := incoming, ReadMost := most\<rparr>) path clientID =
    (Inr conn,
     [EvDial path (Some conn),
      EvWrite conn
        (sendIPCPacket_buf 0 (json_Marshal L (JHandshake \<lparr>V = 1, ClientID = clientID\<rparr>))) True,
      EvRead conn (readIpcResponse most (incoming conn))])"
  using assms by (simp add: connectIPC_def sendIPCPacket_def)

theorem connectIPC_ignores_response_witness:
  "readIpcResponse 4096 [] = HeaderReadFailed \<and>
   connectIPC golib_plain ((env_up procfs_idle)\<lparr>Incoming := (\<lambda>conn. []), ReadMost := 4096\<rparr>)
       ''/run/user/1000/discord-ipc-0'' ''1209665818464358430'' =
    (Inr 3,
     [EvDial ''/run/user/1000/discord-ipc-0'' (Some 3),
      EvWrite 3
        (sendIPCPacket_buf 0
          (json_Marshal golib_plain (JHandshake \<lparr>V = 1, ClientID = ''1209665818464358430''\<rparr>)))
        True,
      EvRead 3 (readIpcResponse 4096 [])])"
proof -
  have d: "Dial (env_up procfs_idle) ''/run/user/1000/discord-ipc-0'' = Some 3"
    by (simp add: env_up_def)
  have w: "Write_ok (env_up procfs_idle) 3
      (sendIPCPacket_buf 0
        (json_Marshal golib_plain (JHandshake \<lparr>V = 1, ClientID = ''1209665818464358430''\<rparr>)))"
    by (simp add: env_up_def)
  have r: "readIpcResponse 4096 [] = HeaderReadFailed"
    by (rule readIpcResponse_failures [THEN conjunct1])
  from r connectIPC_ignores_response [OF d w, where incoming = "\<lambda>conn. []" and most = 4096]
  show ?thesis
    by (intro conjI)
qed

section \<open>Bridge loop: properties\<close>


lemma tick_activity_connected:
  "ipcConn s = Some conn \<Longrightarrow>
   tick_activity L G e gameName pid s =
     [EvWrite conn (activity_frame L G e gameName pid)
        (Write_ok e conn (activity_frame L G e gameName pid))]"
  by (simp add: tick_activity_def setActivity_def sendIPCPacket_def activity_frame_def Let_def)

lemma tick_body_no_game:
  "tick_body L G e s [] pid =
     ((case ipcConn s of Some conn \<Rightarrow> s\<lparr>ipcConn := None, currentClientID := []\<rparr> | None \<Rightarrow> s),
      closes s)"
  by (simp add: tick_body_def tick_no_game_def closes_def split: option.split)

lemma tick_body_same_game:
  assumes "gameName \<noteq> []" and "ipcConn s = Some conn"
    and "currentClientID s = resolveClientID L (nameToID G) gameName"
  shows "tick_body L G e s gameName pid =
    (s, [EvWrite conn (activity_frame L G e gameName pid)
           (Write_ok e conn (activity_frame L G e gameName pid))])"
  using assms
  by (simp add: tick_body_def tick_switch_def tick_connect_def tick_activity_connected Let_def)

lemma tick_connect_success:
  assumes "ipcConn s = None"
    and "path = (if socketPath s = [] then findDiscordSocket_path e else socketPath s)"
    and "path \<noteq> []"
    and "Dial e path = Some conn"
    and "Write_ok e conn (handshake_frame L target)"
  shows "tick_connect L e target s =
    (s\<lparr>socketPath := path, currentClientID := target, ipcConn := Some conn\<rparr>,
     [EvDial path (Some conn), EvWrite conn (handshake_frame L target) True,
      EvRead conn (readIpcResponse (ReadMost e) (Incoming e conn))],
     False)"
proof (cases "socketPath s = []")
  case True
  with assms(2) have p: "path = findDiscordSocket_path e" by simp
  from assms(3,4,5) show ?thesis
    unfolding p
    by (simp add: tick_connect_def assms(1) True connectIPC_success Let_def)
next
  case False
  with assms(2) have p: "path = socketPath s" by simp
  from assms(3,4,5) show ?thesis
    unfolding p
    by (simp add: tick_connect_def assms(1) False connectIPC_success Let_def)
qed

lemma tick_body_connects:
  assumes "gameName \<noteq> []" and "ipcConn s = None"
    and "path = (if socketPath s = [] then findDiscordSocket_path e else socketPath s)"
    and "path \<noteq> []"
    and "Dial e path = Some conn"
    and "Write_ok e conn (handshake_frame L (resolveClientID L (nameToID G) gameName))"
  shows "tick_body L G e s gameName pid =
    (s\<lparr>socketPath := path, currentClientID := resolveClientID L (nameToID G) gameName,
       ipcConn := Some conn\<rparr>,
     [EvDial path (Some conn),
      EvWrite conn (handshake_frame L (resolveClientID L (nameToID G) gameName)) True,
      EvRead conn (readIpcResponse (ReadMost e) (Incoming e conn)),
      EvWrite conn (activity_frame L G e gameName pid)
        (Write_ok e conn (activity_frame L G e gameName pid))])"
proof -
  have sw: "tick_switch (resolveClientID L (nameToID G) gameName) s = (s, [])"
    using assms(2) by (simp add: tick_switch_def)
  show ?thesis
    by (simp add: tick_body_def assms(1) sw tick_connect_success [OF assms(2-6)]
        tick_activity_connected Let_def)
qed

lemma tick_connect_failure:
  assumes "ipcConn s = None"
    and "path = (if socketPath s = [] then findDiscordSocket_path e else socketPath s)"
    and "path \<noteq> []"
    and "connectIPC L e path target = (Inl err, evs)"
  shows "tick_connect L e target s = (s\<lparr>socketPath := path\<rparr>, evs, True)"
proof (cases "socketPath s = []")
  case True
  with assms(2) have p: "path = findDiscordSocket_path e" by simp
  from assms(3,4) show ?thesis
    unfolding p
    by (simp add: tick_connect_def assms(1) True Let_def)
next
  case False
  with assms(2) have p: "path = socketPath s" by simp
  from assms(3,4) show ?thesis
    unfolding p
    by (simp add: tick_connect_def assms(1) False Let_def)
qed

text \<open>
  C1, evaluated where it fails. The session holds a connection made for Balatro; the
  next tick finds RimWorld and the peer refuses the new connection. The old connection
  is closed and \<open>ipcConn\<close> is \<open>nil\<close>, but \<open>currentClientID\<close> still holds the
  identifier of Balatro: the branch for a changed game clears the connection only,
  where the branch for no game clears both.
\<close>

theorem main_tick_switch_refused:
  "main_tick golib_plain globals_balatro (env_refused procfs_rimworld) session_balatro =
     Inr (\<lparr>socketPath = ''/run/user/1000/discord-ipc-0'',
           currentClientID = ''1209665818464358430'', ipcConn = None\<rparr>,
          [EvClose 3, EvDial ''/run/user/1000/discord-ipc-0'' None])"
  by code_simp

text \<open>
  C7, as stated, fails where the socket path is not yet known: the session starts
  with no path, the tick finds the socket file and the peer refuses the connection.
  The connect fails, and the session is not unchanged: it keeps the path it has found.
\<close>

theorem tick_connect_failure_counterexample:
  "socketPath session_start = [] \<and>
   fst (connectIPC golib_plain (env_refused procfs_balatro) ''/run/user/1000/discord-ipc-0''
          ''1209665818464358430'') = Inl DialError \<and>
   main_tick golib_plain globals_balatro (env_refused procfs_balatro) session_start =
     Inr (\<lparr>socketPath = ''/run/user/1000/discord-ipc-0'', currentClientID = [],
           ipcConn = None\<rparr>,
          [EvDial ''/run/user/1000/discord-ipc-0'' None])"
  by code_simp

text \<open>
  C7, amended. In a tick that starts without a connection, finds a game, attempts to
  connect (a socket path is known or found) and fails at the dial or at the write of
  the handshake: the session remains without a connection and \<open>currentClientID\<close> is
  unchanged; \<open>socketPath\<close> is unchanged when it was set, and a path found in this
  tick is kept; the events of the tick are those of the one failed attempt, with
  exactly one dial and no frame of opcode 1.
\<close>

theorem tick_body_connect_failure:
  assumes "gameName \<noteq> []"
    and "ipcConn s = None"
    and "path = (if socketPath s = [] then findDiscordSocket_path e else socketPath s)"
    and "path \<noteq> []"
    and "fst (connectIPC L e path (resolveClientID L (nameToID G) gameName)) = Inl err"
  shows "tick_body L G e s gameName pid =
      ((if socketPath s = [] then s\<lparr>socketPath := findDiscordSocket_path e\<rparr> else s),
       snd (connectIPC L e path (resolveClientID L (nameToID G) gameName))) \<and>
    ipcConn (fst (tick_body L G e s gameName pid)) = None \<and>
    currentClientID (fst (tick_body L G e s gameName pid)) = currentClientID s \<and>
    length (filter is_dial (snd (tick_body L G e s gameName pid))) = 1 \<and>
    filter (is_frame 1) (snd (tick_body L G e s gameName pid)) = []"
proof -
  let ?target = "resolveClientID L (nameToID G) gameName"
  let ?s' = "if socketPath s = [] then s\<lparr>socketPath := findDiscordSocket_path e\<rparr> else s"
  obtain evs where c: "connectIPC L e path ?target = (Inl err, evs)"
    using assms(5) by (cases "connectIPC L e path ?target") simp
  have sw: "tick_switch ?target s = (s, [])"
    using assms(2) by (simp add: tick_switch_def)
  have co: "tick_connect L e ?target s = (s\<lparr>socketPath := path\<rparr>, evs, True)"
    by (rule tick_connect_failure [OF assms(2) assms(3) assms(4) c])
  have st: "s\<lparr>socketPath := path\<rparr> = ?s'"
    by (simp add: assms(3))
  have body: "tick_body L G e s gameName pid = (?s', evs)"
    by (simp add: tick_body_def assms(1) sw co st Let_def)
  have conn: "ipcConn ?s' = None"
    by (simp add: assms(2))
  have ident: "currentClientID ?s' = currentClientID s"
    by simp
  have dial: "length (filter is_dial evs) = 1"
    using connectIPC_failure_events [OF c] by simp
  have frame: "filter (is_frame 1) evs = []"
    using connectIPC_failure_events [OF c] by simp
  show ?thesis
    by (simp only: body c fst_conv snd_conv conn ident dial frame simp_thms)
qed

theorem tick_body_connect_failure_witness:
  "tick_body golib_plain globals_balatro (env_broken_pipe procfs_balatro) session_start
       ''Balatro'' 4321 =
      ((if socketPath session_start = []
        then session_start\<lparr>socketPath := findDiscordSocket_path (env_broken_pipe procfs_balatro)\<rparr>
        else session_start),
       snd (connectIPC golib_plain (env_broken_pipe procfs_balatro) ''/run/user/1000/discord-ipc-0''
              (resolveClientID golib_plain (nameToID globals_balatro) ''Balatro''))) \<and>
    ipcConn (fst (tick_body golib_plain globals_balatro (env_broken_pipe procfs_balatro)
      session_start ''Balatro'' 4321)) = None \<and>
    currentClientID (fst (tick_body golib_plain globals_balatro (env_broken_pipe procfs_balatro)
      session_start ''Balatro'' 4321)) = currentClientID session_start \<and>
    length (filter is_dial
      (snd (tick_body golib_plain globals_balatro (env_broken_pipe procfs_balatro) session_start
              ''Balatro'' 4321))) = 1 \<and>
    filter (is_frame 1)
      (snd (tick_body golib_plain globals_balatro (env_broken_pipe procfs_balatro) session_start
              ''Balatro'' 4321)) = []"
proof -
  have g: "''Balatro'' \<noteq> []" by simp
  have a: "ipcConn session_start = None"
    by (simp add: session_start_def)
  have p: "''/run/user/1000/discord-ipc-0'' =
      (if socketPath session_start = [] then findDiscordSocket_path (env_broken_pipe procfs_balatro)
       else socketPath session_start)"
    by code_simp
  have n: "''/run/user/1000/discord-ipc-0'' \<noteq> []" by simp
  have f: "fst (connectIPC golib_plain (env_broken_pipe procfs_balatro) ''/run/user/1000/discord-ipc-0''
      (resolveClientID golib_plain (nameToID globals_balatro) ''Balatro'')) = Inl WriteError"
    by code_simp
  show ?thesis
    by (rule tick_body_connect_failure [OF g a p n f])
qed

text \<open>
  C2. Four ticks whose scans find A, A, no game and B, from a session without a
  connection, where a socket path is known or found at the first tick and the dial and
  the handshake write succeed at the first and the fourth tick: the first tick dials,
  sends the handshake for A, reads the response and sends the activity of A; the
  second sends the activity of A and nothing else; the third closes the connection;
  the fourth dials, sends the handshake for B, reads the response and sends the
  activity of B.
\<close>

theorem main_loop_A_A_none_B:
  assumes "scanProcesses (ignoredGames G) (Proc e1) = Inr (A, p1)"
    and "scanProcesses (ignoredGames G) (Proc e2) = Inr (A, p2)"
    and "scanProcesses (ignoredGames G) (Proc e3) = Inr ([], p3)"
    and "scanProcesses (ignoredGames G) (Proc e4) = Inr (B, p4)"
    and "A \<noteq> []" and "B \<noteq> []"
    and "ipcConn s = None"
    and "path = (if socketPath s = [] then findDiscordSocket_path e1 else socketPath s)"
    and "path \<noteq> []"
    and "Dial e1 path = Some c1"
    and "Write_ok e1 c1 (handshake_frame L (resolveClientID L (nameToID G) A))"
    and "Dial e4 path = Some c4"
    and "Write_ok e4 c4 (handshake_frame L (resolveClientID L (nameToID G) B))"
  shows "main_loop L G [e1, e2, e3, e4] s =
    Inr (s\<lparr>socketPath := path, currentClientID := resolveClientID L (nameToID G) B,
           ipcConn := Some c4\<rparr>,
         [[EvDial path (Some c1),
           EvWrite c1 (handshake_frame L (resolveClientID L (nameToID G) A)) True,
           EvRead c1 (readIpcResponse (ReadMost e1) (Incoming e1 c1)),
           EvWrite c1 (activity_frame L G e1 A p1) (Write_ok e1 c1 (activity_frame L G e1 A p1))],
          [EvWrite c1 (activity_frame L G e2 A p2) (Write_ok e2 c1 (activity_frame L G e2 A p2))],
          [EvClose c1],
          [EvDial path (Some c4),
           EvWrite c4 (handshake_frame L (resolveClientID L (nameToID G) B)) True,
           EvRead c4 (readIpcResponse (ReadMost e4) (Incoming e4 c4)),
           EvWrite c4 (activity_frame L G e4 B p4) (Write_ok e4 c4 (activity_frame L G e4 B p4))]])"
proof -
  let ?idA = "resolveClientID L (nameToID G) A"
  let ?idB = "resolveClientID L (nameToID G) B"
  let ?s1 = "s\<lparr>socketPath := path, currentClientID := ?idA, ipcConn := Some c1\<rparr>"
  let ?s3 = "s\<lparr>socketPath := path, currentClientID := [], ipcConn := None\<rparr>"
  have t1: "tick_body L G e1 s A p1 =
      (?s1, [EvDial path (Some c1), EvWrite c1 (handshake_frame L ?idA) True,
             EvRead c1 (readIpcResponse (ReadMost e1) (Incoming e1 c1)),
             EvWrite c1 (activity_frame L G e1 A p1) (Write_ok e1 c1 (activity_frame L G e1 A p1))])"
    by (rule tick_body_connects [OF assms(5) assms(7) assms(8) assms(9) assms(10) assms(11)])
  have t2: "tick_body L G e2 ?s1 A p2 =
      (?s1, [EvWrite c1 (activity_frame L G e2 A p2) (Write_ok e2 c1 (activity_frame L G e2 A p2))])"
    by (rule tick_body_same_game [OF assms(5)]) simp_all
  have t3: "tick_body L G e3 ?s1 [] p3 = (?s3, [EvClose c1])"
    by (simp add: tick_body_no_game closes_def)
  have p3: "path = (if socketPath ?s3 = [] then findDiscordSocket_path e4 else socketPath ?s3)"
    using assms(9) by simp
  have "tick_body L G e4 ?s3 B p4 =
      (?s3\<lparr>socketPath := path, currentClientID := ?idB, ipcConn := Some c4\<rparr>,
       [EvDial path (Some c4), EvWrite c4 (handshake_frame L ?idB) True,
        EvRead c4 (readIpcResponse (ReadMost e4) (Incoming e4 c4)),
        EvWrite c4 (activity_frame L G e4 B p4) (Write_ok e4 c4 (activity_frame L G e4 B p4))])"
    by (rule tick_body_connects [OF assms(6) _ p3 assms(9) assms(12) assms(13)]) simp
  then have t4: "tick_body L G e4 ?s3 B p4 =
      (s\<lparr>socketPath := path, currentClientID := ?idB, ipcConn := Some c4\<rparr>,
       [EvDial path (Some c4), EvWrite c4 (handshake_frame L ?idB) True,
        EvRead c4 (readIpcResponse (ReadMost e4) (Incoming e4 c4)),
        EvWrite c4 (activity_frame L G e4 B p4) (Write_ok e4 c4 (activity_frame L G e4 B p4))])"
    by simp
  show ?thesis
    by (simp add: main_tick_def assms(1-4) t1 t2 t3 t4)
qed

lemma resolveClientID_examples:
  "resolveClientID golib_plain (nameToID globals_balatro) ''Balatro'' = ''1209665818464358430'' \<and>
   resolveClientID golib_plain (nameToID globals_balatro) ''RimWorld'' = ''100000000000000001''"
  by code_simp

lemma env_up_Write_ok: "Write_ok (env_up fs) conn buf = True"
  by (simp add: env_up_def)

lemma env_up_response:
  "readIpcResponse (ReadMost (env_up fs)) (Incoming (env_up fs) conn) = DiscordResponse ''{}''"
proof -
  have "readIpcResponse 4096 (sendIPCPacket_buf 1 ''{}'') = DiscordResponse ''{}''"
    by code_simp
  then show ?thesis
    by (simp add: env_up_def)
qed

theorem main_loop_A_A_none_B_witness:
  "main_loop golib_plain globals_balatro
     [env_up procfs_balatro, env_up procfs_balatro, env_up procfs_idle, env_up procfs_rimworld]
     session_start =
    Inr (session_start\<lparr>socketPath := ''/run/user/1000/discord-ipc-0'',
           currentClientID := ''100000000000000001'', ipcConn := Some 3\<rparr>,
         [[EvDial ''/run/user/1000/discord-ipc-0'' (Some 3),
           EvWrite 3 (handshake_frame golib_plain ''1209665818464358430'') True,
           EvRead 3 (DiscordResponse ''{}''),
           EvWrite 3 (activity_frame golib_plain globals_balatro (env_up procfs_balatro)
             ''Balatro'' 4321) True],
          [EvWrite 3 (activity_frame golib_plain globals_balatro (env_up procfs_balatro)
             ''Balatro'' 4321) True],
          [EvClose 3],
          [EvDial ''/run/user/1000/discord-ipc-0'' (Some 3),
           EvWrite 3 (handshake_frame golib_plain ''100000000000000001'') True,
           EvRead 3 (DiscordResponse ''{}''),
           EvWrite 3 (activity_frame golib_plain globals_balatro (env_up procfs_rimworld)
             ''RimWorld'' 555) True]])"
proof -
  have s1: "scanProcesses (ignoredGames globals_balatro) (Proc (env_up procfs_balatro)) =
      Inr (''Balatro'', 4321)"
    by code_simp
  have s3: "scanProcesses (ignoredGames globals_balatro) (Proc (env_up procfs_idle)) = Inr ([], 0)"
    by code_simp
  have s4: "scanProcesses (ignoredGames globals_balatro) (Proc (env_up procfs_rimworld)) =
      Inr (''RimWorld'', 555)"
    by code_simp
  have a: "''Balatro'' \<noteq> []" by simp
  have b: "''RimWorld'' \<noteq> []" by simp
  have i: "ipcConn session_start = None"
    by (simp add: session_start_def)
  have p: "''/run/user/1000/discord-ipc-0'' =
      (if socketPath session_start = [] then findDiscordSocket_path (env_up procfs_balatro)
       else socketPath session_start)"
    by code_simp
  have n: "''/run/user/1000/discord-ipc-0'' \<noteq> []" by simp
  have d1: "Dial (env_up procfs_balatro) ''/run/user/1000/discord-ipc-0'' = Some 3"
    by (simp add: env_up_def)
  have w1: "Write_ok (env_up procfs_balatro) 3
      (handshake_frame golib_plain
        (resolveClientID golib_plain (nameToID globals_balatro) ''Balatro''))"
    by (simp add: env_up_def)
  have d4: "Dial (env_up procfs_rimworld) ''/run/user/1000/discord-ipc-0'' = Some 3"
    by (simp add: env_up_def)
  have w4: "Write_ok (env_up procfs_rimworld) 3
      (handshake_frame golib_plain
        (resolveClientID golib_plain (nameToID globals_balatro) ''RimWorld''))"
    by (simp add: env_up_def)
  from main_loop_A_A_none_B [OF s1 s1 s3 s4 a b i p n d1 w1 d4 w4]
  show ?thesis
    by (simp only: resolveClientID_examples env_up_Write_ok env_up_response)
qed



end
